theory Spec2Isabelle
  imports Main "HOL-Library.Word"
begin

section \<open>The Recent memory: index computation of the two retrievals\<close>

text \<open>
  Embedding of \<^verbatim>\<open>tensorforce/core/memories/recent.py\<close>. The class \<^verbatim>\<open>Recent\<close> reads
  four attributes of its parent \<^verbatim>\<open>Queue\<close>: the constant \<^verbatim>\<open>capacity\<close> and the variables
  \<^verbatim>\<open>buffer_index\<close>, \<^verbatim>\<open>episode_count\<close> and \<^verbatim>\<open>terminal_indices\<close>. All of them, and the
  three arguments, have dtype \<^verbatim>\<open>long\<close>: they are 64-bit words here, read as signed
  integers by \<open>sint\<close>, and every addition and subtraction of the source wraps around at 64
  bits. The stored value records are kept as a field that neither method reads.
\<close>

subsection \<open>State and errors\<close>

datatype error = AssertionFailed | SliceOutOfBounds | InvalidRange | DivisionByZero

type_synonym long = "64 word"

record 'v memory =
  capacity :: long
  buffer_index :: long
  episode_count :: long
  terminal_indices :: "long list"
  memories :: "'v list"

subsection \<open>Operations of the graph\<close>

text \<open>
  A method is a computation over the memory that returns a value or an error, and the
  memory after it. Reading an attribute, evaluating an operation on values, and running
  one step after another are the only three forms the source uses.
\<close>

type_synonym ('v, 'a) graph_op = "'v memory \<Rightarrow> (error + 'a) \<times> 'v memory"

definition read_var :: "('v memory \<Rightarrow> 'a) \<Rightarrow> ('v, 'a) graph_op" where
  "read_var var = (\<lambda>s. (Inr (var s), s))"

definition eval_op :: "error + 'a \<Rightarrow> ('v, 'a) graph_op" where
  "eval_op r = (\<lambda>s. (r, s))"

definition bind_op ::
  "('v, 'a) graph_op \<Rightarrow> ('a \<Rightarrow> ('v, 'b) graph_op) \<Rightarrow> ('v, 'b) graph_op" where
  "bind_op m k = (\<lambda>s. case m s of (Inl e, s') \<Rightarrow> (Inl e, s') | (Inr x, s') \<Rightarrow> k x s')"

subsection \<open>The tensor operations the methods call\<close>

text \<open>The value of an integer result once stored as \<^verbatim>\<open>long\<close>: two's complement, 64 bits.\<close>

definition wrap_long :: "int \<Rightarrow> int" where
  "wrap_long k = (k + 2 ^ 63) mod 2 ^ 64 - 2 ^ 63"

definition tf_subtract :: "int \<Rightarrow> int \<Rightarrow> int" where
  "tf_subtract x y = wrap_long (x - y)"

definition tf_add :: "int \<Rightarrow> int \<Rightarrow> int" where
  "tf_add x y = wrap_long (x + y)"

text \<open>\<^verbatim>\<open>tf.debugging.assert_greater_equal(x, y)\<close>: fails unless \<open>x \<ge> y\<close>.\<close>

definition assert_greater_equal :: "int \<Rightarrow> int \<Rightarrow> error + unit" where
  "assert_greater_equal x y = (if y \<le> x then Inr () else Inl AssertionFailed)"

text \<open>
  \<^verbatim>\<open>tf.range(start, limit)\<close> with the default step 1: the integers from \<open>start\<close> up to but
  excluding \<open>limit\<close>; the kernel rejects \<open>start > limit\<close>.
\<close>

definition tf_range :: "int \<Rightarrow> int \<Rightarrow> error + int list" where
  "tf_range start limit =
     (if start \<le> limit then Inr [start..limit - 1] else Inl InvalidRange)"

text \<open>
  \<^verbatim>\<open>tf.math.mod(x, y)\<close> on an integer tensor: the elementwise floor modulo (the result
  takes the sign of the divisor, as \<open>mod\<close> on \<open>int\<close> does); a zero divisor is an error
  as soon as there is an element to divide.
\<close>

definition tf_math_mod :: "int list \<Rightarrow> int \<Rightarrow> error + int list" where
  "tf_math_mod xs y =
     (if y = 0 \<and> xs \<noteq> [] then Inl DivisionByZero else Inr (map (\<lambda>x. x mod y) xs))"

text \<open>
  \<^verbatim>\<open>tensor[i]\<close> with a scalar index on a rank-1 tensor: a negative index counts from the
  end, once; anything still outside the tensor is an error.
\<close>

definition tf_getitem :: "'a list \<Rightarrow> int \<Rightarrow> error + 'a" where
  "tf_getitem xs i =
     (let d = int (length xs); j = (if i < 0 then d + i else i)
      in if 0 \<le> j \<and> j < d then Inr (xs ! nat j) else Inl SliceOutOfBounds)"

subsection \<open>The two methods\<close>

text \<open>
  Each mention of \<^verbatim>\<open>self.x\<close> in the source is a read; the operations under
  \<^verbatim>\<open>tf.control_dependencies\<close> run after the assertion. The result is the list of the
  values of the returned \<^verbatim>\<open>long\<close> tensor.
\<close>

definition tf_retrieve_timesteps :: "long \<Rightarrow> long \<Rightarrow> long \<Rightarrow> ('v, int list) graph_op" where
  "tf_retrieve_timesteps n past_horizon future_horizon =
     (let one = 1 in
      bind_op (read_var capacity) (\<lambda>cap.
      bind_op (read_var buffer_index) (\<lambda>bi.
      (let num_timesteps =
             tf_subtract (tf_subtract (min (sint bi) (sint cap)) (sint past_horizon))
               (sint future_horizon)
       in bind_op (eval_op (assert_greater_equal num_timesteps one)) (\<lambda>_.
          bind_op (read_var buffer_index) (\<lambda>bi_start.
          bind_op (read_var buffer_index) (\<lambda>bi_limit.
          bind_op (eval_op (tf_range (tf_subtract (sint bi_start) (sint n)) (sint bi_limit)))
            (\<lambda>indices.
          eval_op (tf_math_mod (map (\<lambda>i. tf_subtract i (sint future_horizon)) indices)
                     (sint cap))))))))))"

definition tf_retrieve_episodes :: "long \<Rightarrow> ('v, int list) graph_op" where
  "tf_retrieve_episodes n =
     (let zero = 0; one = 1 in
      bind_op (read_var capacity) (\<lambda>cap.
      bind_op (read_var episode_count) (\<lambda>ec.
      bind_op (eval_op (assert_greater_equal (sint ec) one)) (\<lambda>_.
      bind_op (read_var terminal_indices) (\<lambda>table_start.
      bind_op (read_var episode_count) (\<lambda>ec_start.
      bind_op (eval_op (tf_getitem table_start (tf_subtract (sint ec_start) (sint n))))
        (\<lambda>start0.
      bind_op (read_var terminal_indices) (\<lambda>table_limit.
      bind_op (read_var episode_count) (\<lambda>ec_limit.
      bind_op (eval_op (tf_getitem table_limit (sint ec_limit))) (\<lambda>limit0.
      (let start = tf_add (sint start0) one;
           limit1 = tf_add (sint limit0) one;
           limit = tf_add limit1 (if limit1 < start then sint cap else zero)
       in bind_op (eval_op (tf_range start limit)) (\<lambda>indices.
          eval_op (tf_math_mod indices (sint cap))))))))))))))"

section \<open>Auxiliary facts\<close>

lemma wrap_long_id: "- (2 ^ 63) \<le> k \<Longrightarrow> k < 2 ^ 63 \<Longrightarrow> wrap_long k = k"
  by (simp add: wrap_long_def)

lemma wrap_long_sint: "wrap_long k = sint (word_of_int k :: long)"
  by (simp add: wrap_long_def sint_sbintrunc' signed_take_bit_eq_take_bit_shift take_bit_eq_mod)

lemma tf_subtract_word: "tf_subtract (sint a) (sint b) = sint (a - b :: long)"
  by (simp add: tf_subtract_def wrap_long_sint)

lemma tf_add_word: "tf_add (sint a) (sint b) = sint (a + b :: long)"
  by (simp add: tf_add_def wrap_long_sint)

lemma wrap_long_below:
  assumes "- (2 ^ 64) - 2 ^ 63 \<le> k" and "k < - (2 ^ 63)"
  shows "wrap_long k = k + 2 ^ 64"
proof -
  have "(k + 2 ^ 63) mod 2 ^ 64 = (k + 2 ^ 63 + 2 ^ 64) mod 2 ^ 64"
    by (rule mod_add_self2 [symmetric])
  also have "\<dots> = k + 2 ^ 63 + 2 ^ 64" using assms by (intro mod_pos_pos_trivial) simp_all
  finally show ?thesis by (simp add: wrap_long_def)
qed

lemma sint_long_range: "- (2 ^ 63) \<le> sint (x :: long) \<and> sint x < 2 ^ 63"
  using sint_ge [of x] sint_lt [of x] by simp

lemma timesteps_run:
  "tf_retrieve_timesteps n p f self =
     (case assert_greater_equal
             (tf_subtract (tf_subtract (min (sint (buffer_index self)) (sint (capacity self)))
                (sint p)) (sint f)) 1 of
        Inl e \<Rightarrow> Inl e
      | Inr _ \<Rightarrow>
          (case tf_range (tf_subtract (sint (buffer_index self)) (sint n))
                  (sint (buffer_index self)) of
             Inl e \<Rightarrow> Inl e
           | Inr indices \<Rightarrow>
               tf_math_mod (map (\<lambda>i. tf_subtract i (sint f)) indices) (sint (capacity self))),
      self)"
  by (simp add: tf_retrieve_timesteps_def bind_op_def read_var_def eval_op_def Let_def
      split: sum.splits)

lemma episodes_run:
  "tf_retrieve_episodes n self =
     (case assert_greater_equal (sint (episode_count self)) 1 of
        Inl e \<Rightarrow> Inl e
      | Inr _ \<Rightarrow>
          (case tf_getitem (terminal_indices self)
                  (tf_subtract (sint (episode_count self)) (sint n)) of
             Inl e \<Rightarrow> Inl e
           | Inr start0 \<Rightarrow>
               (case tf_getitem (terminal_indices self) (sint (episode_count self)) of
                  Inl e \<Rightarrow> Inl e
                | Inr limit0 \<Rightarrow>
                    (case tf_range (tf_add (sint start0) 1)
                            (tf_add (tf_add (sint limit0) 1)
                               (if tf_add (sint limit0) 1 < tf_add (sint start0) 1
                                then sint (capacity self) else 0)) of
                       Inl e \<Rightarrow> Inl e
                     | Inr indices \<Rightarrow> tf_math_mod indices (sint (capacity self))))),
      self)"
  by (simp add: tf_retrieve_episodes_def bind_op_def read_var_def eval_op_def Let_def
      split: sum.splits)

lemma gate_no_wrap:
  assumes "0 \<le> sint p" and "0 \<le> sint f"
    and "- (2 ^ 63) \<le> min (sint bi) (sint cap) - sint p - sint f"
  shows "tf_subtract (tf_subtract (min (sint (bi :: long)) (sint (cap :: long))) (sint (p :: long)))
           (sint (f :: long))
         = min (sint bi) (sint cap) - sint p - sint f"
proof -
  note r = sint_long_range [of bi] sint_long_range [of cap]
  have a: "tf_subtract (min (sint bi) (sint cap)) (sint p) = min (sint bi) (sint cap) - sint p"
    unfolding tf_subtract_def using assms r by (intro wrap_long_id) linarith+
  have b: "tf_subtract (min (sint bi) (sint cap) - sint p) (sint f)
           = min (sint bi) (sint cap) - sint p - sint f"
    unfolding tf_subtract_def using assms r by (intro wrap_long_id) linarith+
  show ?thesis by (simp only: a b)
qed

lemma start_no_wrap:
  assumes "0 < sint (n :: long)" and "tf_subtract (sint (bi :: long)) (sint n) \<le> sint bi"
  shows "tf_subtract (sint bi) (sint n) = sint bi - sint n"
proof (cases "- (2 ^ 63) \<le> sint bi - sint n")
  case True
  then show ?thesis
    unfolding tf_subtract_def using assms(1) sint_long_range [of bi]
    by (intro wrap_long_id) linarith+
next
  case False
  have "wrap_long (sint bi - sint n) = sint bi - sint n + 2 ^ 64"
    using False sint_long_range [of bi] sint_long_range [of n]
    by (intro wrap_long_below) simp_all
  with assms(2) have "2 ^ 64 \<le> sint n" by (simp add: tf_subtract_def)
  with sint_long_range [of n] show ?thesis by simp
qed

lemma start_no_wrap_nonneg:
  assumes "0 \<le> sint (n :: long)" and "0 \<le> sint (bi :: long)"
  shows "tf_subtract (sint bi) (sint n) = sint bi - sint n"
  unfolding tf_subtract_def using assms sint_long_range [of bi] sint_long_range [of n]
  by (intro wrap_long_id) linarith+

lemma timesteps_fails:
  "tf_subtract (tf_subtract (min (sint (buffer_index self)) (sint (capacity self))) (sint p))
      (sint f) < 1 \<Longrightarrow>
   fst (tf_retrieve_timesteps n p f self) = Inl AssertionFailed"
  by (simp add: timesteps_run assert_greater_equal_def)

lemma timesteps_succeeds:
  assumes "sint (capacity self) \<noteq> 0" and "0 \<le> sint n" and "0 \<le> sint (buffer_index self)"
    and "1 \<le> tf_subtract (tf_subtract (min (sint (buffer_index self)) (sint (capacity self)))
                  (sint p)) (sint f)"
  shows "fst (tf_retrieve_timesteps n p f self) =
         Inr (map (\<lambda>i. tf_subtract i (sint f) mod sint (capacity self))
                [sint (buffer_index self) - sint n..sint (buffer_index self) - 1])"
  using assms start_no_wrap_nonneg [OF assms(2,3)]
  by (simp add: timesteps_run assert_greater_equal_def tf_range_def tf_math_mod_def comp_def)

lemma timesteps_InrD:
  assumes "fst (tf_retrieve_timesteps n p f self) = Inr slots"
  shows "1 \<le> tf_subtract (tf_subtract (min (sint (buffer_index self)) (sint (capacity self)))
                  (sint p)) (sint f)"
    and "tf_subtract (sint (buffer_index self)) (sint n) \<le> sint (buffer_index self)"
    and "slots = map (\<lambda>i. tf_subtract i (sint f) mod sint (capacity self))
                   [tf_subtract (sint (buffer_index self)) (sint n)..sint (buffer_index self) - 1]"
  using assms
  by (auto simp: timesteps_run assert_greater_equal_def tf_range_def tf_math_mod_def comp_def
      split: if_splits)

lemma tf_getitem_Inr:
  "0 \<le> i \<Longrightarrow> i < int (length xs) \<Longrightarrow> tf_getitem xs i = Inr (xs ! nat i)"
  by (simp add: tf_getitem_def Let_def)

lemma episodes_fails:
  "sint (episode_count self) < 1 \<Longrightarrow> fst (tf_retrieve_episodes n self) = Inl AssertionFailed"
  by (simp add: episodes_run assert_greater_equal_def)

lemma episodes_succeeds:
  assumes "0 < sint (capacity self)" and "1 \<le> sint (episode_count self)"
    and "idx = tf_subtract (sint (episode_count self)) (sint n)"
    and "0 \<le> idx" and "idx < int (length (terminal_indices self))"
    and "sint (episode_count self) < int (length (terminal_indices self))"
    and "start = sint (terminal_indices self ! nat idx) + 1"
    and "limit = sint (terminal_indices self ! nat (sint (episode_count self))) + 1"
    and "start < 2 ^ 63" and "limit < 2 ^ 63"
    and "start \<le> limit + sint (capacity self)"
    and "limit < start \<longrightarrow> limit + sint (capacity self) < 2 ^ 63"
  shows "fst (tf_retrieve_episodes n self) =
         Inr (map (\<lambda>L. L mod sint (capacity self))
                [start..(if limit < start then limit + sint (capacity self) else limit) - 1])"
proof -
  have s: "tf_add (sint (terminal_indices self ! nat idx)) 1 = start"
    unfolding tf_add_def using assms(7,9) sint_long_range [of "terminal_indices self ! nat idx"]
    by (simp add: wrap_long_id)
  have l: "tf_add (sint (terminal_indices self ! nat (sint (episode_count self)))) 1 = limit"
    unfolding tf_add_def
    using assms(8,10) sint_long_range [of "terminal_indices self ! nat (sint (episode_count self))"]
    by (simp add: wrap_long_id)
  have l0: "tf_add limit 0 = limit"
    unfolding tf_add_def
    using assms(8,10) sint_long_range [of "terminal_indices self ! nat (sint (episode_count self))"]
    by (simp add: wrap_long_id)
  have lc: "tf_add limit (sint (capacity self)) = limit + sint (capacity self)" if "limit < start"
    unfolding tf_add_def
    using that assms(1,8,12) sint_long_range [of "terminal_indices self ! nat (sint (episode_count self))"]
    by (intro wrap_long_id) linarith+
  show ?thesis
    using assms(1,2,4,5,6,11) lc
    by (simp add: episodes_run assert_greater_equal_def tf_getitem_Inr assms(3) [symmetric]
        s l l0 tf_range_def tf_math_mod_def)
qed

lemma episodes_InrD:
  assumes "fst (tf_retrieve_episodes n self) = Inr slots"
    and "idx = tf_subtract (sint (episode_count self)) (sint n)" and "0 \<le> idx"
  shows "1 \<le> sint (episode_count self)"
    and "sint (episode_count self) < int (length (terminal_indices self))"
    and "idx < int (length (terminal_indices self))"
    and "slots = map (\<lambda>L. L mod sint (capacity self))
           [tf_add (sint (terminal_indices self ! nat idx)) 1..
            tf_add (tf_add (sint (terminal_indices self ! nat (sint (episode_count self)))) 1)
              (if tf_add (sint (terminal_indices self ! nat (sint (episode_count self)))) 1
                    < tf_add (sint (terminal_indices self ! nat idx)) 1
               then sint (capacity self) else 0) - 1]"
  using assms
  by (auto simp: episodes_run assert_greater_equal_def Let_def tf_getitem_def
      tf_range_def tf_math_mod_def split: if_splits sum.splits)

lemma shifted_no_wrap:
  assumes "0 \<le> sint (bi :: long)" and "0 \<le> sint (f :: long)"
    and "sint (n :: long) + sint f \<le> 2 ^ 63"
  shows "map (\<lambda>i. tf_subtract i (sint f) mod c) [sint bi - sint n..sint bi - 1]
         = map (\<lambda>L. (L - sint f) mod c) [sint bi - sint n..sint bi - 1]"
proof (rule map_cong [OF refl])
  fix i assume "i \<in> set [sint bi - sint n..sint bi - 1]"
  then have i: "sint bi - sint n \<le> i" "i \<le> sint bi - 1" by simp_all
  have "tf_subtract i (sint f) = i - sint f"
    unfolding tf_subtract_def using i assms sint_long_range [of bi]
    by (intro wrap_long_id) linarith+
  then show "tf_subtract i (sint f) mod c = (i - sint f) mod c" by simp
qed

subsection \<open>The arithmetic wraps\<close>

text \<open>
  Three runs next to the 64-bit boundary. With both horizons at \<open>2^63 - 1\<close> the asserted
  quantity wraps to 10 and the call returns; with \<open>past_horizon = -(2^63 - 1)\<close> it wraps
  below 1 and the assertion fails; with capacity 7 and an empty memory the shifted indices
  wrap to 0 and \<open>-1\<close>.
\<close>

lemma gate_wraps_upwards:
  "fst (tf_retrieve_timesteps 1 9223372036854775807 9223372036854775807
         \<lparr>capacity = 8, buffer_index = 20, episode_count = 0,
          terminal_indices = [-1], memories = [] :: unit list\<rparr>) = Inr [4]"
  by (simp add: timesteps_run assert_greater_equal_def tf_range_def tf_math_mod_def
        tf_subtract_def wrap_long_def)

lemma gate_wraps_downwards:
  "fst (tf_retrieve_timesteps 1 (-9223372036854775807) 0
         \<lparr>capacity = 8, buffer_index = 20, episode_count = 0,
          terminal_indices = [-1], memories = [] :: unit list\<rparr>) = Inl AssertionFailed"
  by (simp add: timesteps_run assert_greater_equal_def tf_range_def tf_math_mod_def
        tf_subtract_def wrap_long_def)

lemma shifted_indices_wrap:
  "fst (tf_retrieve_timesteps 2 9223372036854775807 9223372036854775807
         \<lparr>capacity = 7, buffer_index = 0, episode_count = 0,
          terminal_indices = [-1], memories = [] :: unit list\<rparr>) = Inr [0, 6]"
  by (simp add: timesteps_run assert_greater_equal_def tf_range_def tf_math_mod_def
        tf_subtract_def wrap_long_def upto_rec1)

section \<open>The timestep retrieval\<close>



text \<open>
  C9. \<open>n\<close> is never compared with the data available: with a positive capacity,
  \<open>n > 0\<close>, and a cursor and horizons that are not negative, as soon as
  \<open>min buffer_index capacity - past_horizon - future_horizon \<ge> 1\<close> the call succeeds with
  exactly \<open>n\<close> slots, however large \<open>n\<close> is; and when \<open>n\<close> exceeds the capacity some slot
  occurs twice in the result.
\<close>

theorem timesteps_n_not_validated:
  assumes "0 < sint (capacity self)" and "0 < sint n"
    and "0 \<le> sint (buffer_index self)" and "0 \<le> sint p" and "0 \<le> sint f"
    and "1 \<le> min (sint (buffer_index self)) (sint (capacity self)) - sint p - sint f"
  shows "\<exists>slots. fst (tf_retrieve_timesteps n p f self) = Inr slots \<and>
           int (length slots) = sint n \<and>
           (sint (capacity self) < sint n \<longrightarrow> \<not> distinct slots)"
proof -
  define slots where
    "slots = map (\<lambda>i. tf_subtract i (sint f) mod sint (capacity self))
               [sint (buffer_index self) - sint n..sint (buffer_index self) - 1]"
  have g: "tf_subtract (tf_subtract (min (sint (buffer_index self)) (sint (capacity self)))
              (sint p)) (sint f)
           = min (sint (buffer_index self)) (sint (capacity self)) - sint p - sint f"
    using assms by (intro gate_no_wrap) simp_all
  have r: "fst (tf_retrieve_timesteps n p f self) = Inr slots"
    unfolding slots_def using assms g by (intro timesteps_succeeds) simp_all
  have len: "int (length slots) = sint n" using assms(2) by (simp add: slots_def)
  have sub: "set slots \<subseteq> {0..<sint (capacity self)}"
    using assms(1) by (auto simp: slots_def)
  have dup: "\<not> distinct slots" if big: "sint (capacity self) < sint n"
  proof
    assume d: "distinct slots"
    have "card (set slots) \<le> card {0..<sint (capacity self)}"
      using sub by (intro card_mono) simp_all
    then have "card (set slots) \<le> nat (sint (capacity self))" by simp
    moreover have "card (set slots) = length slots" using d by (rule distinct_card)
    ultimately have "length slots \<le> nat (sint (capacity self))" by simp
    then have "int (length slots) \<le> sint (capacity self)" using assms(1) by linarith
    with len big show False by simp
  qed
  show ?thesis using r len dup by blast
qed

text \<open>Capacity 2, cursor at 5, three timesteps asked for: slot 0 comes back twice.\<close>

theorem timesteps_n_not_validated_witness:
  "0 < sint (capacity \<lparr>capacity = 2, buffer_index = 5, episode_count = 0,
                  terminal_indices = [], memories = [] :: unit list\<rparr>) \<and>
   0 < sint (3 :: long) \<and> (1::int) \<le> min 5 2 - 0 - 0 \<and> (2::int) < 3 \<and> (min 5 2 :: int) < 3 \<and>
   fst (tf_retrieve_timesteps 3 0 0 \<lparr>capacity = 2, buffer_index = 5, episode_count = 0,
                  terminal_indices = [], memories = [] :: unit list\<rparr>) = Inr [0, 1, 0] \<and>
   \<not> distinct [0, 1, 0 :: int]"
proof -
  define M where "M = \<lparr>capacity = 2, buffer_index = 5, episode_count = 0,
                  terminal_indices = [], memories = [] :: unit list\<rparr>"
  have h: "0 < sint (capacity M)" "0 < sint (3 :: long)" "0 \<le> sint (buffer_index M)"
    "0 \<le> sint (0 :: long)" "0 \<le> sint (0 :: long)"
    "1 \<le> min (sint (buffer_index M)) (sint (capacity M)) - sint (0 :: long) - sint (0 :: long)"
    by (simp_all add: M_def)
  from timesteps_n_not_validated [OF h]
  obtain slots where r: "fst (tf_retrieve_timesteps 3 0 0 M) = Inr slots"
    and d: "sint (capacity M) < sint (3 :: long) \<longrightarrow> \<not> distinct slots"
    by blast
  have c: "fst (tf_retrieve_timesteps 3 0 0 M) = Inr [0, 1, 0]"
    by (simp add: timesteps_run M_def assert_greater_equal_def tf_range_def tf_math_mod_def
        tf_subtract_def wrap_long_def)
  with r have "slots = [0, 1, 0]" by simp
  with d have "\<not> distinct [0, 1, 0 :: int]" by (simp add: M_def)
  with c h(1,2) show ?thesis unfolding M_def by simp
qed

text \<open>
  C10. \<open>past_horizon\<close> decides only whether the call fails: two calls on the same memory
  with the same \<open>n\<close> and \<open>future_horizon\<close> that both pass the availability check (the
  quantity the code asserts, as it computes it in 64 bits, is at least 1) return the same
  thing.
\<close>

theorem past_horizon_only_gates:
  assumes "1 \<le> tf_subtract (tf_subtract (min (sint (buffer_index self)) (sint (capacity self)))
                   (sint p1)) (sint f)"
    and "1 \<le> tf_subtract (tf_subtract (min (sint (buffer_index self)) (sint (capacity self)))
                   (sint p2)) (sint f)"
  shows "fst (tf_retrieve_timesteps n p1 f self) = fst (tf_retrieve_timesteps n p2 f self)"
  using assms by (simp add: timesteps_run assert_greater_equal_def)

theorem past_horizon_only_gates_witness:
  "(1::int) \<le> tf_subtract (tf_subtract (min 20 8) 0) 1 \<and>
   (1::int) \<le> tf_subtract (tf_subtract (min 20 8) 5) 1 \<and>
   fst (tf_retrieve_timesteps 3 0 1 \<lparr>capacity = 8, buffer_index = 20, episode_count = 0,
                  terminal_indices = [], memories = [] :: unit list\<rparr>) = Inr [0, 1, 2] \<and>
   fst (tf_retrieve_timesteps 3 5 1 \<lparr>capacity = 8, buffer_index = 20, episode_count = 0,
                  terminal_indices = [], memories = [] :: unit list\<rparr>) = Inr [0, 1, 2]"
proof -
  define M where "M = \<lparr>capacity = 8, buffer_index = 20, episode_count = 0,
                  terminal_indices = [], memories = [] :: unit list\<rparr>"
  have h: "1 \<le> tf_subtract (tf_subtract (min (sint (buffer_index M)) (sint (capacity M)))
                   (sint (0 :: long))) (sint (1 :: long))"
    "1 \<le> tf_subtract (tf_subtract (min (sint (buffer_index M)) (sint (capacity M)))
                   (sint (5 :: long))) (sint (1 :: long))"
    by (simp_all add: M_def tf_subtract_def wrap_long_def)
  have c: "fst (tf_retrieve_timesteps 3 0 1 M) = Inr [0, 1, 2]"
    by (simp add: timesteps_run M_def assert_greater_equal_def tf_range_def tf_math_mod_def
        tf_subtract_def wrap_long_def)
  from past_horizon_only_gates [OF h, of 3] c
  have "fst (tf_retrieve_timesteps 3 5 1 M) = Inr [0, 1, 2]" by simp
  with c show ?thesis unfolding M_def by (simp add: tf_subtract_def wrap_long_def)
qed

section \<open>The slot mapping\<close>

text \<open>
  C7. The mapping from logical indices to slots is the true modulo: for a positive
  capacity \<open>C\<close> and any integers \<open>xs\<close>, negative ones included, \<open>tf_math_mod xs C\<close> succeeds
  and gives, position by position, a value in \<open>[0, C)\<close> congruent to the index modulo \<open>C\<close>,
  the only such value.
\<close>

theorem slot_mapping_true_modulo:
  assumes "0 < C"
  shows "\<exists>ys. tf_math_mod xs C = Inr ys \<and> length ys = length xs \<and>
           (\<forall>k<length xs. 0 \<le> ys ! k \<and> ys ! k < C \<and> C dvd (xs ! k - ys ! k) \<and>
              (\<forall>r. 0 \<le> r \<and> r < C \<and> C dvd (xs ! k - r) \<longrightarrow> r = ys ! k))"
proof -
  have uniq: "r = i mod C" if "0 \<le> r" "r < C" "C dvd (i - r)" for r i :: int
  proof -
    from that(3) have "i mod C = r mod C" by (metis mod_eq_dvd_iff)
    with that(1,2) show ?thesis by simp
  qed
  have "tf_math_mod xs C = Inr (map (\<lambda>x. x mod C) xs)"
    using assms by (simp add: tf_math_mod_def)
  moreover have "C dvd (i - i mod C)" for i
    by (simp add: minus_mod_eq_mult_div)
  ultimately show ?thesis using assms uniq by auto
qed

theorem slot_mapping_true_modulo_witness:
  "(0::int) < 8 \<and> tf_math_mod [20, -3, 7] 8 = Inr [4, 5, 7]"
  using slot_mapping_true_modulo [of 8 "[20, -3, 7]"]
  by (simp add: tf_math_mod_def)

section \<open>The episode retrieval\<close>

text \<open>
  C2 as stated does not hold for every \<open>n > 0\<close>. With one complete episode and a table of
  two entries, \<open>n = 4\<close> makes the table index \<open>episode_count - n = -3\<close>, which is outside
  the table even counted from its end: the read raises and nothing is returned.
\<close>

theorem episode_table_index_counterexample:
  "0 < sint (4 :: long) \<and>
   1 \<le> sint (episode_count \<lparr>capacity = 8, buffer_index = 3, episode_count = 1,
          terminal_indices = [-1, 2], memories = [] :: unit list\<rparr>) \<and>
   fst (tf_retrieve_episodes 4 \<lparr>capacity = 8, buffer_index = 3, episode_count = 1,
          terminal_indices = [-1, 2], memories = [] :: unit list\<rparr>) = Inl SliceOutOfBounds"
  by (simp add: episodes_run assert_greater_equal_def tf_getitem_def tf_subtract_def
      wrap_long_def Let_def)

text \<open>
  C2, amended. Take a positive capacity, \<open>0 < n \<le> episode_count\<close> with \<open>episode_count\<close>
  inside the table, and let \<open>start\<close> be the table entry at \<open>episode_count - n\<close> plus one
  and \<open>limit\<close> the entry at \<open>episode_count\<close> plus one, both below \<open>2^63\<close>, with
  \<open>start \<le> limit + capacity\<close>. Then \<open>tf_retrieve_episodes\<close> adds the capacity to
  \<open>limit\<close> when \<open>limit < start\<close> (the sum staying below \<open>2^63\<close>; this leaves \<open>limit\<close> alone
  when the entries are ordered), and returns the logical indices from \<open>start\<close> up to the
  corrected limit, excluded, each reduced modulo the capacity, oldest first.
\<close>

theorem retrieve_episodes_window:
  assumes "0 < sint (capacity self)" and "0 < sint n" and "1 \<le> sint (episode_count self)"
    and "sint n \<le> sint (episode_count self)"
    and "sint (episode_count self) < int (length (terminal_indices self))"
    and "start = sint (terminal_indices self ! nat (sint (episode_count self) - sint n)) + 1"
    and "limit = sint (terminal_indices self ! nat (sint (episode_count self))) + 1"
    and "start \<le> limit + sint (capacity self)"
    and "start < 2 ^ 63" and "limit < 2 ^ 63"
    and "limit < start \<longrightarrow> limit + sint (capacity self) < 2 ^ 63"
  shows "\<exists>slots limit'.
           limit' = (if limit < start then limit + sint (capacity self) else limit) \<and>
           (start \<le> limit \<longrightarrow> limit' = limit) \<and>
           fst (tf_retrieve_episodes n self) = Inr slots \<and>
           slots = map (\<lambda>L. L mod sint (capacity self)) [start..limit' - 1] \<and>
           int (length slots) = limit' - start \<and>
           (\<forall>k<length slots. slots ! k = (start + int k) mod sint (capacity self))"
proof -
  have idx: "tf_subtract (sint (episode_count self)) (sint n)
             = sint (episode_count self) - sint n"
    unfolding tf_subtract_def using assms(2,4) sint_long_range [of "episode_count self"]
    by (intro wrap_long_id) linarith+
  have "fst (tf_retrieve_episodes n self) =
         Inr (map (\<lambda>L. L mod sint (capacity self))
                [start..(if limit < start then limit + sint (capacity self) else limit) - 1])"
    using assms idx
    by (intro episodes_succeeds [where idx = "sint (episode_count self) - sint n"]) simp_all
  then show ?thesis using assms(1,8) by auto
qed

text \<open>
  Capacity 4, terminals at 2 and 6: the last episode is the logical range 3 to 6, which
  wraps to the slots 3, 0, 1, 2.
\<close>

theorem retrieve_episodes_window_witness:
  "0 < sint (capacity \<lparr>capacity = 4, buffer_index = 7, episode_count = 2,
                  terminal_indices = [-1, 2, 6], memories = [] :: unit list\<rparr>) \<and>
   0 < sint (1 :: long) \<and>
   sint (1 :: long) \<le> sint (episode_count \<lparr>capacity = 4, buffer_index = 7, episode_count = 2,
                  terminal_indices = [-1, 2, 6], memories = [] :: unit list\<rparr>) \<and>
   fst (tf_retrieve_episodes 1 \<lparr>capacity = 4, buffer_index = 7, episode_count = 2,
                  terminal_indices = [-1, 2, 6], memories = [] :: unit list\<rparr>) = Inr [3, 0, 1, 2]"
proof -
  define M where "M = \<lparr>capacity = 4, buffer_index = 7, episode_count = 2,
                  terminal_indices = [-1, 2, 6], memories = [] :: unit list\<rparr>"
  have h: "0 < sint (capacity M)" "0 < sint (1 :: long)" "1 \<le> sint (episode_count M)"
    "sint (1 :: long) \<le> sint (episode_count M)"
    "sint (episode_count M) < int (length (terminal_indices M))"
    "3 = sint (terminal_indices M ! nat (sint (episode_count M) - sint (1 :: long))) + 1"
    "7 = sint (terminal_indices M ! nat (sint (episode_count M))) + 1"
    "(3::int) \<le> 7 + sint (capacity M)"
    "(3::int) < 2 ^ 63" "(7::int) < 2 ^ 63"
    "(7::int) < 3 \<longrightarrow> 7 + sint (capacity M) < 2 ^ 63"
    by (simp_all add: M_def)
  from retrieve_episodes_window [OF h]
  obtain slots limit' where
    l: "limit' = (if (7::int) < 3 then 7 + sint (capacity M) else 7)"
    and r: "fst (tf_retrieve_episodes 1 M) = Inr slots"
    and s: "slots = map (\<lambda>L. L mod sint (capacity M)) [3..limit' - 1]"
    by blast
  from l have "limit' = 7" by simp
  with s have "slots = [3, 0, 1, 2]" by (simp add: M_def)
  with r h(1,2,4) show ?thesis unfolding M_def by simp
qed

text \<open>
  C6. When three episodes are complete and the table holds 4, 9 and 15 for them (after
  the entry for "before any episode"), \<open>tf_retrieve_episodes\<close> with \<open>n = 1\<close> returns the
  slots of the six logical indices 10 to 15: what follows the terminal of episode 2, up
  to and including the terminal of episode 3.
\<close>

theorem episode_boundaries_example:
  assumes "0 < sint (capacity self)" and "episode_count self = 3"
    and "terminal_indices self = sentinel # 4 # 9 # 15 # rest"
  shows "fst (tf_retrieve_episodes 1 self) =
           Inr (map (\<lambda>L. L mod sint (capacity self)) [10, 11, 12, 13, 14, 15]) \<and>
         length (map (\<lambda>L. L mod sint (capacity self)) [10, 11, 12, 13, 14, 15 :: int]) = 6"
proof -
  have "fst (tf_retrieve_episodes 1 self) =
         Inr (map (\<lambda>L. L mod sint (capacity self))
                [10..(if (16::int) < 10 then 16 + sint (capacity self) else 16) - 1])"
    using assms
    by (intro episodes_succeeds [where idx = 2])
       (simp_all add: tf_subtract_def wrap_long_def)
  then show ?thesis by simp
qed

theorem episode_boundaries_example_witness:
  "0 < sint (capacity \<lparr>capacity = 8, buffer_index = 16, episode_count = 3,
                  terminal_indices = [-1, 4, 9, 15], memories = [] :: unit list\<rparr>) \<and>
   fst (tf_retrieve_episodes 1 \<lparr>capacity = 8, buffer_index = 16, episode_count = 3,
                  terminal_indices = [-1, 4, 9, 15], memories = [] :: unit list\<rparr>)
     = Inr [2, 3, 4, 5, 6, 7]"
  using episode_boundaries_example
    [of "\<lparr>capacity = 8, buffer_index = 16, episode_count = 3,
                  terminal_indices = [-1, 4, 9, 15], memories = [] :: unit list\<rparr>" "-1" "[]"]
  by simp

section \<open>Retrievals leave the memory alone\<close>

text \<open>
  C8. Both method bodies are made of reads and of operations on values only, so running
  either returns the memory it was given: the cursor, the episode count, the terminal
  index table and the stored records are what they were, and running the same retrieval
  again on the memory that comes back gives the same result.
\<close>

theorem retrievals_are_pure_queries:
  "snd (tf_retrieve_timesteps n p f self) = self \<and>
   snd (tf_retrieve_episodes n self) = self \<and>
   buffer_index (snd (tf_retrieve_timesteps n p f self)) = buffer_index self \<and>
   episode_count (snd (tf_retrieve_timesteps n p f self)) = episode_count self \<and>
   terminal_indices (snd (tf_retrieve_timesteps n p f self)) = terminal_indices self \<and>
   memories (snd (tf_retrieve_timesteps n p f self)) = memories self \<and>
   buffer_index (snd (tf_retrieve_episodes n self)) = buffer_index self \<and>
   episode_count (snd (tf_retrieve_episodes n self)) = episode_count self \<and>
   terminal_indices (snd (tf_retrieve_episodes n self)) = terminal_indices self \<and>
   memories (snd (tf_retrieve_episodes n self)) = memories self \<and>
   fst (tf_retrieve_timesteps n p f (snd (tf_retrieve_timesteps n p f self))) =
     fst (tf_retrieve_timesteps n p f self) \<and>
   fst (tf_retrieve_episodes n (snd (tf_retrieve_episodes n self))) =
     fst (tf_retrieve_episodes n self)"
proof -
  have t: "snd (tf_retrieve_timesteps n p f self) = self"
    by (simp add: tf_retrieve_timesteps_def bind_op_def read_var_def eval_op_def Let_def
        split: sum.splits)
  have e: "snd (tf_retrieve_episodes n self) = self"
    by (simp add: tf_retrieve_episodes_def bind_op_def read_var_def eval_op_def Let_def
        split: sum.splits)
  show ?thesis by (simp add: t e)
qed

section \<open>What the two gates do not check\<close>

text \<open>
  C3 as stated does not hold: neither gate compares \<open>n\<close> with the data available. With
  capacity 8 and three timesteps written, asking for five timesteps succeeds (three
  qualify); with one complete episode and a table of two entries, asking for two episodes
  succeeds too (the index \<open>episode_count - n = -1\<close> reads the table from its end) and
  returns no slot at all.
\<close>

theorem insufficient_data_counterexample:
  "min (sint (buffer_index \<lparr>capacity = 8, buffer_index = 3, episode_count = 1,
          terminal_indices = [-1, 2], memories = [] :: unit list\<rparr>))
       (sint (capacity \<lparr>capacity = 8, buffer_index = 3, episode_count = 1,
          terminal_indices = [-1, 2], memories = [] :: unit list\<rparr>))
     - sint (0 :: long) - sint (0 :: long) < sint (5 :: long) \<and>
   fst (tf_retrieve_timesteps 5 0 0 \<lparr>capacity = 8, buffer_index = 3, episode_count = 1,
          terminal_indices = [-1, 2], memories = [] :: unit list\<rparr>) = Inr [6, 7, 0, 1, 2] \<and>
   sint (episode_count \<lparr>capacity = 8, buffer_index = 3, episode_count = 1,
          terminal_indices = [-1, 2], memories = [] :: unit list\<rparr>) < sint (2 :: long) \<and>
   fst (tf_retrieve_episodes 2 \<lparr>capacity = 8, buffer_index = 3, episode_count = 1,
          terminal_indices = [-1, 2], memories = [] :: unit list\<rparr>) = Inr []"
  by (simp add: timesteps_run episodes_run assert_greater_equal_def
      tf_range_def tf_math_mod_def tf_getitem_def tf_subtract_def tf_add_def wrap_long_def
      Let_def upto_rec1)

text \<open>
  C3, amended. With a positive capacity, a cursor and horizons that are not negative and
  \<open>past_horizon + future_horizon \<le> 2^63\<close>, \<open>tf_retrieve_timesteps\<close> fails whenever fewer
  than one timestep qualifies
  (\<open>min buffer_index capacity - past_horizon - future_horizon < 1\<close>);
  \<open>tf_retrieve_episodes\<close> fails whenever no episode is complete (\<open>episode_count < 1\<close>);
  a successful timestep retrieval with \<open>n > 0\<close> returns exactly \<open>n\<close> slots, never fewer.
\<close>

theorem retrievals_fail_below_one:
  "(0 \<le> sint (buffer_index self) \<and> 0 < sint (capacity self) \<and> 0 \<le> sint p \<and> 0 \<le> sint f \<and>
    sint p + sint f \<le> 2 ^ 63 \<and>
    min (sint (buffer_index self)) (sint (capacity self)) - sint p - sint f < 1 \<longrightarrow>
      fst (tf_retrieve_timesteps n p f self) = Inl AssertionFailed) \<and>
   (sint (episode_count self) < 1 \<longrightarrow>
      fst (tf_retrieve_episodes n self) = Inl AssertionFailed) \<and>
   (\<forall>slots. 0 < sint n \<and> fst (tf_retrieve_timesteps n p f self) = Inr slots \<longrightarrow>
      int (length slots) = sint n)"
proof (intro conjI impI allI; (elim conjE)?)
  assume a: "0 \<le> sint (buffer_index self)" "0 < sint (capacity self)" "0 \<le> sint p"
    "0 \<le> sint f" "sint p + sint f \<le> 2 ^ 63"
    "min (sint (buffer_index self)) (sint (capacity self)) - sint p - sint f < 1"
  have "tf_subtract (tf_subtract (min (sint (buffer_index self)) (sint (capacity self)))
              (sint p)) (sint f)
           = min (sint (buffer_index self)) (sint (capacity self)) - sint p - sint f"
    using a by (intro gate_no_wrap) linarith+
  with a(6) show "fst (tf_retrieve_timesteps n p f self) = Inl AssertionFailed"
    by (intro timesteps_fails) simp
next
  assume "sint (episode_count self) < 1"
  then show "fst (tf_retrieve_episodes n self) = Inl AssertionFailed"
    by (rule episodes_fails)
next
  fix slots
  assume n: "0 < sint n" and r: "fst (tf_retrieve_timesteps n p f self) = Inr slots"
  note d = timesteps_InrD [OF r]
  have "tf_subtract (sint (buffer_index self)) (sint n) = sint (buffer_index self) - sint n"
    using n d(2) by (rule start_no_wrap)
  with d(3) n show "int (length slots) = sint n" by simp
qed

theorem retrievals_fail_below_one_witness:
  "min (sint (buffer_index \<lparr>capacity = 8, buffer_index = 0, episode_count = 0,
          terminal_indices = [-1], memories = [] :: unit list\<rparr>))
       (sint (capacity \<lparr>capacity = 8, buffer_index = 0, episode_count = 0,
          terminal_indices = [-1], memories = [] :: unit list\<rparr>))
     - sint (0 :: long) - sint (0 :: long) < 1 \<and>
   fst (tf_retrieve_timesteps 3 0 0 \<lparr>capacity = 8, buffer_index = 0, episode_count = 0,
          terminal_indices = [-1], memories = [] :: unit list\<rparr>) = Inl AssertionFailed \<and>
   sint (episode_count \<lparr>capacity = 8, buffer_index = 0, episode_count = 0,
          terminal_indices = [-1], memories = [] :: unit list\<rparr>) < 1 \<and>
   fst (tf_retrieve_episodes 3 \<lparr>capacity = 8, buffer_index = 0, episode_count = 0,
          terminal_indices = [-1], memories = [] :: unit list\<rparr>) = Inl AssertionFailed \<and>
   0 < sint (3 :: long) \<and>
   fst (tf_retrieve_timesteps 3 0 0 \<lparr>capacity = 8, buffer_index = 20, episode_count = 0,
          terminal_indices = [-1], memories = [] :: unit list\<rparr>) = Inr [1, 2, 3] \<and>
   int (length [1, 2, 3 :: int]) = sint (3 :: long)"
proof -
  define M0 where "M0 = \<lparr>capacity = 8, buffer_index = 0, episode_count = 0,
          terminal_indices = [-1], memories = [] :: unit list\<rparr>"
  define M1 where "M1 = \<lparr>capacity = 8, buffer_index = 20, episode_count = 0,
          terminal_indices = [-1], memories = [] :: unit list\<rparr>"
  have a: "0 \<le> sint (buffer_index M0)" "0 < sint (capacity M0)" "0 \<le> sint (0 :: long)"
    "sint (0 :: long) + sint (0 :: long) \<le> 2 ^ 63"
    "min (sint (buffer_index M0)) (sint (capacity M0)) - sint (0 :: long) - sint (0 :: long) < 1"
    and b: "sint (episode_count M0) < 1"
    by (simp_all add: M0_def)
  from retrievals_fail_below_one [where self = M0 and p = 0 and f = 0 and n = 3] a b
  have f: "fst (tf_retrieve_timesteps 3 0 0 M0) = Inl AssertionFailed"
    "fst (tf_retrieve_episodes 3 M0) = Inl AssertionFailed"
    by blast+
  have n: "0 < sint (3 :: long)" by simp
  have c: "fst (tf_retrieve_timesteps 3 0 0 M1) = Inr [1, 2, 3]"
    by (simp add: timesteps_run M1_def assert_greater_equal_def tf_range_def tf_math_mod_def
        tf_subtract_def wrap_long_def)
  with retrievals_fail_below_one [where self = M1 and p = 0 and f = 0 and n = 3] n
  have "int (length [1, 2, 3 :: int]) = sint (3 :: long)" by blast
  with a(5) b f c n show ?thesis unfolding M0_def M1_def by simp
qed

text \<open>
  C4 as stated does not hold. With capacity 8, the cursor at 20 and \<open>past_horizon = 7\<close>
  one timestep qualifies, so the call for three succeeds; its oldest index is the logical
  timestep 17, whose seven predecessors start at 10, while the oldest record still stored
  is 12.
\<close>

theorem horizon_bounds_counterexample:
  "fst (tf_retrieve_timesteps 3 7 0 \<lparr>capacity = 8, buffer_index = 20, episode_count = 0,
          terminal_indices = [-1], memories = [] :: unit list\<rparr>) = Inr [1, 2, 3] \<and>
   (1::int) = (20 - 3 + 0 - 0) mod 8 \<and>
   \<not> (max 0 (20 - 8) \<le> (20 - 3 + 0 - 0) - (7::int))"
  by (simp add: timesteps_run assert_greater_equal_def tf_range_def tf_math_mod_def
      tf_subtract_def wrap_long_def)

text \<open>
  C4, amended. When \<open>tf_retrieve_timesteps\<close> succeeds with \<open>n > 0\<close>, a cursor and a
  \<open>future_horizon\<close> that are not negative and \<open>n + future_horizon \<le> 2^63\<close>, the slot at
  position \<open>k\<close> is that of the logical index \<open>L = buffer_index - n + k - future_horizon\<close>,
  and \<open>L + future_horizon < buffer_index\<close> for every one of them. The bound
  \<open>L - past_horizon \<ge> max 0 (buffer_index - capacity)\<close> holds for every returned index
  exactly when \<open>n \<le> min buffer_index capacity - past_horizon - future_horizon\<close>.
\<close>

theorem timesteps_horizon_bounds:
  assumes "0 < sint n" and "fst (tf_retrieve_timesteps n p f self) = Inr slots"
    and "0 \<le> sint (buffer_index self)" and "0 \<le> sint f" and "sint n + sint f \<le> 2 ^ 63"
  shows "int (length slots) = sint n \<and>
         (\<forall>k<nat (sint n).
            slots ! k = (sint (buffer_index self) - sint n + int k - sint f)
                          mod sint (capacity self) \<and>
            (sint (buffer_index self) - sint n + int k - sint f) + sint f
              < sint (buffer_index self)) \<and>
         ((\<forall>k<nat (sint n). max 0 (sint (buffer_index self) - sint (capacity self))
                        \<le> (sint (buffer_index self) - sint n + int k - sint f) - sint p) \<longleftrightarrow>
          sint n \<le> min (sint (buffer_index self)) (sint (capacity self)) - sint p - sint f)"
proof -
  note d = timesteps_InrD [OF assms(2)]
  have st: "tf_subtract (sint (buffer_index self)) (sint n) = sint (buffer_index self) - sint n"
    using assms(1) d(2) by (rule start_no_wrap)
  have s: "slots = map (\<lambda>L. (L - sint f) mod sint (capacity self))
                     [sint (buffer_index self) - sint n..sint (buffer_index self) - 1]"
    using d(3) st shifted_no_wrap [OF assms(3,4,5)] by simp
  have len: "int (length slots) = sint n" using s assms(1) by simp
  have nth: "slots ! k = (sint (buffer_index self) - sint n + int k - sint f)
                           mod sint (capacity self)"
    if "k < nat (sint n)" for k
    using that s by simp
  have fut: "(sint (buffer_index self) - sint n + int k - sint f) + sint f
               < sint (buffer_index self)" if "k < nat (sint n)" for k
    using that by linarith
  have past: "(\<forall>k<nat (sint n). max 0 (sint (buffer_index self) - sint (capacity self))
                        \<le> (sint (buffer_index self) - sint n + int k - sint f) - sint p) \<longleftrightarrow>
          sint n \<le> min (sint (buffer_index self)) (sint (capacity self)) - sint p - sint f"
    (is "?L \<longleftrightarrow> ?R")
  proof
    assume l: ?L
    from assms(1) have "0 < nat (sint n)" by simp
    with l have "max 0 (sint (buffer_index self) - sint (capacity self))
                      \<le> (sint (buffer_index self) - sint n + int 0 - sint f) - sint p" by blast
    then show ?R by linarith
  next
    assume r: ?R
    show ?L
    proof (intro allI impI)
      fix k assume "k < nat (sint n)"
      from r show "max 0 (sint (buffer_index self) - sint (capacity self))
                        \<le> (sint (buffer_index self) - sint n + int k - sint f) - sint p"
        by linarith
    qed
  qed
  show ?thesis using len nth fut past by blast
qed

theorem timesteps_horizon_bounds_witness:
  "0 < sint (3 :: long) \<and>
   fst (tf_retrieve_timesteps 3 2 1 \<lparr>capacity = 8, buffer_index = 20, episode_count = 0,
          terminal_indices = [-1], memories = [] :: unit list\<rparr>) = Inr [0, 1, 2] \<and>
   (3::int) \<le> min 20 8 - 2 - 1 \<and>
   max 0 (20 - 8) \<le> (20 - 3 + int 0 - 1) - (2::int) \<and>
   (20 - 3 + int 0 - 1) + 1 < (20::int)"
proof -
  define M where "M = \<lparr>capacity = 8, buffer_index = 20, episode_count = 0,
          terminal_indices = [-1], memories = [] :: unit list\<rparr>"
  have c: "fst (tf_retrieve_timesteps 3 2 1 M) = Inr [0, 1, 2]"
    by (simp add: timesteps_run M_def assert_greater_equal_def tf_range_def tf_math_mod_def
        tf_subtract_def wrap_long_def)
  have h: "0 < sint (3 :: long)" "0 \<le> sint (buffer_index M)" "0 \<le> sint (1 :: long)"
    "sint (3 :: long) + sint (1 :: long) \<le> 2 ^ 63"
    by (simp_all add: M_def)
  have n: "sint (3 :: long) \<le> min (sint (buffer_index M)) (sint (capacity M))
             - sint (2 :: long) - sint (1 :: long)"
    by (simp add: M_def)
  from timesteps_horizon_bounds [OF h(1) c h(2,3,4)] n
  have A: "\<forall>k<nat (sint (3 :: long)). max 0 (sint (buffer_index M) - sint (capacity M))
             \<le> (sint (buffer_index M) - sint (3 :: long) + int k - sint (1 :: long))
                - sint (2 :: long)"
    and B: "\<forall>k<nat (sint (3 :: long)).
             (sint (buffer_index M) - sint (3 :: long) + int k - sint (1 :: long))
               + sint (1 :: long) < sint (buffer_index M)"
    by blast+
  have "max 0 (sint (buffer_index M) - sint (capacity M))
             \<le> (sint (buffer_index M) - sint (3 :: long) + int 0 - sint (1 :: long))
                - sint (2 :: long)"
    using A [rule_format, of 0] by simp
  moreover have "(sint (buffer_index M) - sint (3 :: long) + int 0 - sint (1 :: long))
               + sint (1 :: long) < sint (buffer_index M)"
    using B [rule_format, of 0] by simp
  ultimately show ?thesis using c n h(1) unfolding M_def by simp
qed

text \<open>
  C5 as stated does not hold. With capacity 8 and two timesteps written, the call for four
  timesteps succeeds and returns slots 6 and 7, which were never written: the logical
  index \<open>-2\<close> is below the window, and 6 is the slot of no index of the window. For
  episodes, with capacity 4 and one episode of ten timesteps, the call returns all ten
  logical indices from 0 on, of which only 6 to 9 are still stored.
\<close>

theorem valid_window_counterexample:
  "fst (tf_retrieve_timesteps 4 0 0 \<lparr>capacity = 8, buffer_index = 2, episode_count = 0,
          terminal_indices = [-1], memories = [] :: unit list\<rparr>) = Inr [6, 7, 0, 1] \<and>
   (6::int) = (2 - 4 + 0 - 0) mod 8 \<and>
   \<not> (2 - min 2 8 \<le> (2 - 4 + 0 - 0 :: int)) \<and>
   (6::int) \<notin> set (map (\<lambda>L. L mod 8) [2 - min 2 8..2 - 1]) \<and>
   fst (tf_retrieve_episodes 1 \<lparr>capacity = 4, buffer_index = 10, episode_count = 1,
          terminal_indices = [-1, 9], memories = [] :: unit list\<rparr>)
     = Inr [0, 1, 2, 3, 0, 1, 2, 3, 0, 1] \<and>
   (0::int) = (-1 + 1 + 0) mod 4 \<and>
   \<not> (10 - min 10 4 \<le> (-1 + 1 + 0 :: int))"
  by (simp add: timesteps_run episodes_run assert_greater_equal_def
      tf_range_def tf_math_mod_def tf_getitem_def tf_subtract_def tf_add_def wrap_long_def
      Let_def upto_rec1)

text \<open>
  C5, amended. A successful \<open>tf_retrieve_timesteps\<close> with \<open>n > 0\<close>,
  \<open>future_horizon \<ge> 0\<close> and \<open>n + future_horizon \<le> min buffer_index capacity\<close> returns
  only slots of logical indices inside the valid window, from
  \<open>buffer_index - min buffer_index capacity\<close> up to \<open>buffer_index\<close> excluded. A successful
  \<open>tf_retrieve_episodes\<close> whose table index does not wrap (\<open>n \<le> episode_count\<close>, the
  difference below \<open>2^63\<close>) does so when the two table entries it reads are ordered, the
  older one plus one is not below the window, and the newer one plus one is at most
  \<open>buffer_index\<close>.
\<close>

theorem retrievals_inside_valid_window:
  "(0 < sint n \<and> fst (tf_retrieve_timesteps n p f self) = Inr slots \<and> 0 \<le> sint f \<and>
      sint n + sint f \<le> min (sint (buffer_index self)) (sint (capacity self)) \<longrightarrow>
      int (length slots) = sint n \<and>
      (\<forall>k<length slots.
         slots ! k = (sint (buffer_index self) - sint n + int k - sint f)
                       mod sint (capacity self) \<and>
         sint (buffer_index self) - min (sint (buffer_index self)) (sint (capacity self))
           \<le> sint (buffer_index self) - sint n + int k - sint f \<and>
         sint (buffer_index self) - sint n + int k - sint f < sint (buffer_index self))) \<and>
   (fst (tf_retrieve_episodes m self) = Inr slots' \<and> sint m \<le> sint (episode_count self) \<and>
      sint (episode_count self) - sint m < 2 ^ 63 \<and>
      sint (buffer_index self) - min (sint (buffer_index self)) (sint (capacity self))
        \<le> sint (terminal_indices self ! nat (sint (episode_count self) - sint m)) + 1 \<and>
      sint (terminal_indices self ! nat (sint (episode_count self) - sint m))
        \<le> sint (terminal_indices self ! nat (sint (episode_count self))) \<and>
      sint (terminal_indices self ! nat (sint (episode_count self))) + 1
        \<le> sint (buffer_index self) \<longrightarrow>
      int (length slots') = sint (terminal_indices self ! nat (sint (episode_count self)))
                            - sint (terminal_indices self ! nat (sint (episode_count self) - sint m)) \<and>
      (\<forall>k<length slots'.
         slots' ! k = (sint (terminal_indices self ! nat (sint (episode_count self) - sint m))
                         + 1 + int k) mod sint (capacity self) \<and>
         sint (buffer_index self) - min (sint (buffer_index self)) (sint (capacity self))
           \<le> sint (terminal_indices self ! nat (sint (episode_count self) - sint m)) + 1 + int k \<and>
         sint (terminal_indices self ! nat (sint (episode_count self) - sint m)) + 1 + int k
           < sint (buffer_index self)))"
proof (intro conjI impI; elim conjE)
  assume n: "0 < sint n" and r: "fst (tf_retrieve_timesteps n p f self) = Inr slots"
  note d = timesteps_InrD [OF r]
  have "tf_subtract (sint (buffer_index self)) (sint n) = sint (buffer_index self) - sint n"
    using n d(2) by (rule start_no_wrap)
  with d(3) n show "int (length slots) = sint n" by simp
next
  assume n: "0 < sint n" and r: "fst (tf_retrieve_timesteps n p f self) = Inr slots"
    and f: "0 \<le> sint f"
    and nf: "sint n + sint f \<le> min (sint (buffer_index self)) (sint (capacity self))"
  note d = timesteps_InrD [OF r]
  have st: "tf_subtract (sint (buffer_index self)) (sint n) = sint (buffer_index self) - sint n"
    using n d(2) by (rule start_no_wrap)
  have bi: "0 \<le> sint (buffer_index self)" using n f nf by linarith
  have "sint n + sint f \<le> 2 ^ 63"
    using nf sint_long_range [of "buffer_index self"] by linarith
  then have s: "slots = map (\<lambda>L. (L - sint f) mod sint (capacity self))
                     [sint (buffer_index self) - sint n..sint (buffer_index self) - 1]"
    using d(3) st shifted_no_wrap [OF bi f] by simp
  have len: "length slots = nat (sint n)" using s by simp
  show "\<forall>k<length slots.
         slots ! k = (sint (buffer_index self) - sint n + int k - sint f)
                       mod sint (capacity self) \<and>
         sint (buffer_index self) - min (sint (buffer_index self)) (sint (capacity self))
           \<le> sint (buffer_index self) - sint n + int k - sint f \<and>
         sint (buffer_index self) - sint n + int k - sint f < sint (buffer_index self)"
  proof (intro allI impI)
    fix k assume "k < length slots"
    then have k: "k < nat (sint n)" using len by simp
    then have "slots ! k = (sint (buffer_index self) - sint n + int k - sint f)
                             mod sint (capacity self)"
      using s by simp
    moreover have "sint (buffer_index self)
                     - min (sint (buffer_index self)) (sint (capacity self))
           \<le> sint (buffer_index self) - sint n + int k - sint f" using nf by linarith
    moreover have "sint (buffer_index self) - sint n + int k - sint f < sint (buffer_index self)"
      using k f by linarith
    ultimately show "slots ! k = (sint (buffer_index self) - sint n + int k - sint f)
                       mod sint (capacity self) \<and>
         sint (buffer_index self) - min (sint (buffer_index self)) (sint (capacity self))
           \<le> sint (buffer_index self) - sint n + int k - sint f \<and>
         sint (buffer_index self) - sint n + int k - sint f < sint (buffer_index self)"
      by blast
  qed
next
  assume r: "fst (tf_retrieve_episodes m self) = Inr slots'"
    and m: "sint m \<le> sint (episode_count self)"
    and mr: "sint (episode_count self) - sint m < 2 ^ 63"
    and ord: "sint (terminal_indices self ! nat (sint (episode_count self) - sint m))
        \<le> sint (terminal_indices self ! nat (sint (episode_count self)))"
    and hi: "sint (terminal_indices self ! nat (sint (episode_count self))) + 1
        \<le> sint (buffer_index self)"
  define a where "a = sint (terminal_indices self ! nat (sint (episode_count self) - sint m))"
  define b where "b = sint (terminal_indices self ! nat (sint (episode_count self)))"
  have idx: "tf_subtract (sint (episode_count self)) (sint m)
             = sint (episode_count self) - sint m"
    unfolding tf_subtract_def using m mr by (intro wrap_long_id) linarith+
  have b1: "tf_add b 1 = b + 1"
    unfolding tf_add_def b_def
    using hi sint_long_range [of "buffer_index self"]
      sint_long_range [of "terminal_indices self ! nat (sint (episode_count self))"]
    by (intro wrap_long_id) linarith+
  have a1: "tf_add a 1 = a + 1"
    unfolding tf_add_def
    using ord hi sint_long_range [of "buffer_index self"]
      sint_long_range [of "terminal_indices self ! nat (sint (episode_count self) - sint m)"]
    unfolding a_def by (intro wrap_long_id) linarith+
  have b0: "tf_add (b + 1) 0 = b + 1" using b1 by (simp add: tf_add_def)
  have "slots' = map (\<lambda>L. L mod sint (capacity self))
           [tf_add a 1..
            tf_add (tf_add b 1) (if tf_add b 1 < tf_add a 1 then sint (capacity self) else 0) - 1]"
    unfolding a_def b_def
    using episodes_InrD(4) [OF r idx [symmetric]] m by simp
  then have s: "slots' = map (\<lambda>L. L mod sint (capacity self)) [a + 1..b]"
    using ord by (simp add: a1 b1 b0 a_def [symmetric] b_def [symmetric])
  have len: "int (length slots') = b - a"
    using ord by (simp add: s a_def b_def)
  show "int (length slots') = sint (terminal_indices self ! nat (sint (episode_count self)))
          - sint (terminal_indices self ! nat (sint (episode_count self) - sint m))"
    using len by (simp add: a_def b_def)
  assume lo: "sint (buffer_index self) - min (sint (buffer_index self)) (sint (capacity self))
        \<le> sint (terminal_indices self ! nat (sint (episode_count self) - sint m)) + 1"
  show "\<forall>k<length slots'.
         slots' ! k = (sint (terminal_indices self ! nat (sint (episode_count self) - sint m))
                         + 1 + int k) mod sint (capacity self) \<and>
         sint (buffer_index self) - min (sint (buffer_index self)) (sint (capacity self))
           \<le> sint (terminal_indices self ! nat (sint (episode_count self) - sint m)) + 1 + int k \<and>
         sint (terminal_indices self ! nat (sint (episode_count self) - sint m)) + 1 + int k
           < sint (buffer_index self)"
    unfolding a_def [symmetric]
  proof (intro allI impI)
    fix k assume k: "k < length slots'"
    then have kk: "int k < b - a" using len by linarith
    have "[a + 1..b] ! k = a + 1 + int k"
      using kk by (intro nth_upto) linarith
    moreover have "k < length [a + 1..b]" using k by (simp add: s)
    ultimately have "slots' ! k = (a + 1 + int k) mod sint (capacity self)"
      unfolding s by (simp only: nth_map)
    moreover have "sint (buffer_index self)
                     - min (sint (buffer_index self)) (sint (capacity self)) \<le> a + 1 + int k"
      using lo unfolding a_def by linarith
    moreover have "a + 1 + int k < sint (buffer_index self)"
      using kk hi unfolding b_def by linarith
    ultimately show "slots' ! k = (a + 1 + int k) mod sint (capacity self) \<and>
         sint (buffer_index self) - min (sint (buffer_index self)) (sint (capacity self))
           \<le> a + 1 + int k \<and>
         a + 1 + int k < sint (buffer_index self)"
      by blast
  qed
qed

theorem retrievals_inside_valid_window_witness:
  "0 < sint (3 :: long) \<and>
   fst (tf_retrieve_timesteps 3 0 1 \<lparr>capacity = 8, buffer_index = 20, episode_count = 0,
          terminal_indices = [-1], memories = [] :: unit list\<rparr>) = Inr [0, 1, 2] \<and>
   0 \<le> sint (1 :: long) \<and> (3::int) + 1 \<le> min 20 8 \<and>
   (20::int) - min 20 8 \<le> 20 - 3 + int 0 - 1 \<and> 20 - 3 + int 0 - 1 < (20::int) \<and>
   fst (tf_retrieve_episodes 1 \<lparr>capacity = 8, buffer_index = 16, episode_count = 3,
          terminal_indices = [-1, 4, 9, 15], memories = [] :: unit list\<rparr>)
     = Inr [2, 3, 4, 5, 6, 7] \<and>
   sint (1 :: long) \<le> 3 \<and>
   (16::int) - min 16 8 \<le> 9 + 1 + int 0 \<and> 9 + 1 + int 0 < (16::int)"
proof -
  define M where "M = \<lparr>capacity = 8, buffer_index = 20, episode_count = 0,
          terminal_indices = [-1], memories = [] :: unit list\<rparr>"
  define E where "E = \<lparr>capacity = 8, buffer_index = 16, episode_count = 3,
          terminal_indices = [-1, 4, 9, 15], memories = [] :: unit list\<rparr>"
  have t: "fst (tf_retrieve_timesteps 3 0 1 M) = Inr [0, 1, 2]"
    by (simp add: timesteps_run M_def assert_greater_equal_def tf_range_def tf_math_mod_def
        tf_subtract_def wrap_long_def)
  have th: "0 < sint (3 :: long)" "0 \<le> sint (1 :: long)"
    "sint (3 :: long) + sint (1 :: long) \<le> min (sint (buffer_index M)) (sint (capacity M))"
    by (simp_all add: M_def)
  have e: "fst (tf_retrieve_episodes 1 E) = Inr [2, 3, 4, 5, 6, 7]"
    by (simp add: episodes_run assert_greater_equal_def Let_def tf_getitem_def
        tf_range_def tf_math_mod_def tf_subtract_def tf_add_def wrap_long_def E_def)
  have eh: "sint (1 :: long) \<le> sint (episode_count E)"
    "sint (episode_count E) - sint (1 :: long) < 2 ^ 63"
    "sint (buffer_index E) - min (sint (buffer_index E)) (sint (capacity E))
       \<le> sint (terminal_indices E ! nat (sint (episode_count E) - sint (1 :: long))) + 1"
    "sint (terminal_indices E ! nat (sint (episode_count E) - sint (1 :: long)))
       \<le> sint (terminal_indices E ! nat (sint (episode_count E)))"
    "sint (terminal_indices E ! nat (sint (episode_count E))) + 1 \<le> sint (buffer_index E)"
    by (simp_all add: E_def)
  from retrievals_inside_valid_window
    [where self = M and n = 3 and p = 0 and f = 1 and slots = "[0, 1, 2]"] t th
  have A: "\<forall>k<length [0, 1, 2 :: int].
         sint (buffer_index M) - min (sint (buffer_index M)) (sint (capacity M))
           \<le> sint (buffer_index M) - sint (3 :: long) + int k - sint (1 :: long) \<and>
         sint (buffer_index M) - sint (3 :: long) + int k - sint (1 :: long)
           < sint (buffer_index M)"
    by blast
  from retrievals_inside_valid_window
    [where self = E and m = 1 and slots' = "[2, 3, 4, 5, 6, 7]"] e eh
  have B: "\<forall>k<length [2, 3, 4, 5, 6, 7 :: int].
         sint (buffer_index E) - min (sint (buffer_index E)) (sint (capacity E))
           \<le> sint (terminal_indices E ! nat (sint (episode_count E) - sint (1 :: long)))
               + 1 + int k \<and>
         sint (terminal_indices E ! nat (sint (episode_count E) - sint (1 :: long))) + 1 + int k
           < sint (buffer_index E)"
    by blast
  have "sint (buffer_index M) - min (sint (buffer_index M)) (sint (capacity M))
           \<le> sint (buffer_index M) - sint (3 :: long) + int 0 - sint (1 :: long) \<and>
         sint (buffer_index M) - sint (3 :: long) + int 0 - sint (1 :: long)
           < sint (buffer_index M)"
    using A [rule_format, of 0] by simp
  moreover have "sint (buffer_index E) - min (sint (buffer_index E)) (sint (capacity E))
           \<le> sint (terminal_indices E ! nat (sint (episode_count E) - sint (1 :: long)))
               + 1 + int 0 \<and>
         sint (terminal_indices E ! nat (sint (episode_count E) - sint (1 :: long))) + 1 + int 0
           < sint (buffer_index E)"
    using B [rule_format, of 0] by simp
  ultimately show ?thesis using t e unfolding M_def E_def by simp
qed

end
